theory Spec2Isabelle
  imports Complex_Main "HOL-Library.Multiset" "HOL-Library.Word"
begin

section \<open>Text primitives of the recommendation model\<close>

text \<open>
  Python text is a sequence of code points. A \<^typ>\<open>char\<close> stands here for one code point
  below 256 (Latin-1, which covers the accented French letters of the tables), so that
  \<^term>\<open>length\<close> counts what Python's \<^verbatim>\<open>len\<close> counts. Accented letters are written by
  their code: \<^verbatim>\<open>CHR 0xE9\<close> is e-acute.
\<close>

definition isspace :: "char \<Rightarrow> bool" where
  \<comment> \<open>\<^verbatim>\<open>str.isspace\<close> on the code points below 256\<close>
  "isspace c = (of_char c \<in> {9, 10, 11, 12, 13, 28, 29, 30, 31, 32, 133, 160 :: nat})"

definition strip :: "string \<Rightarrow> string" where
  \<comment> \<open>\<^verbatim>\<open>str.strip()\<close>\<close>
  "strip s = rev (dropWhile isspace (rev (dropWhile isspace s)))"

fun split_acc :: "string \<Rightarrow> string \<Rightarrow> string list" where
  "split_acc w [] = (if w = [] then [] else [w])"
| "split_acc w (c # cs) =
     (if isspace c then (if w = [] then split_acc [] cs else w # split_acc [] cs)
      else split_acc (w @ [c]) cs)"

definition str_split :: "string \<Rightarrow> string list" where
  \<comment> \<open>\<^verbatim>\<open>str.split()\<close>: the maximal runs of non-whitespace\<close>
  "str_split s = split_acc [] s"

fun contains :: "string \<Rightarrow> string \<Rightarrow> bool" where
  \<comment> \<open>\<^verbatim>\<open>pattern in text\<close> on strings: \<open>contains text pattern\<close>\<close>
  "contains [] p = (p = [])"
| "contains (c # cs) p = (take (length p) (c # cs) = p \<or> contains cs p)"

definition truthy :: "string option \<Rightarrow> bool" where
  \<comment> \<open>Python truth value of a feature: \<^verbatim>\<open>None\<close> and the empty string are false\<close>
  "truthy v = (case v of None \<Rightarrow> False | Some s \<Rightarrow> s \<noteq> [])"

fun string_of_nat :: "nat \<Rightarrow> string" where
  "string_of_nat n =
     (if n < 10 then [''0123456789'' ! n]
      else string_of_nat (n div 10) @ [''0123456789'' ! (n mod 10)])"

section \<open>Numbers\<close>

definition py_int :: "real \<Rightarrow> int" where
  \<comment> \<open>\<^verbatim>\<open>int(x)\<close> on a float: truncation towards zero\<close>
  "py_int x = (if 0 \<le> x then \<lfloor>x\<rfloor> else \<lceil>x\<rceil>)"

definition py_round :: "real \<Rightarrow> int" where
  \<comment> \<open>\<^verbatim>\<open>round(x)\<close>: to the nearest integer, a half to the even neighbour\<close>
  "py_round x =
     (let f = \<lfloor>x\<rfloor>; d = x - of_int f
      in if d < 1 / 2 then f else if 1 / 2 < d then f + 1
         else if even f then f else f + 1)"

definition decimals3 :: "real \<Rightarrow> real" where
  \<comment> \<open>the nearest multiple of 0.001, a half to the even neighbour\<close>
  "decimals3 x = of_int (py_round (x * 1000)) / 1000"

section \<open>Exceptions\<close>

datatype exception =
    NotInitialized
  | EmbeddingError
  | KeyError string
  | IndexError
  | ValueError
  | OverflowError

text \<open>
  \<open>KeyError\<close> carries the text that \<^verbatim>\<open>str(e)\<close> gives: the representation of the missing
  key. \<open>NotInitialized\<close> is the \<^verbatim>\<open>Exception\<close> raised by the guard of
  \<^verbatim>\<open>get_recommendations\<close>; \<open>EmbeddingError\<close> is whatever the embedder raises.
\<close>

section \<open>Prices\<close>

text \<open>
  The column \<^verbatim>\<open>prix_jour\<close> holds 64-bit integers when every price of the catalog is an
  integer, and floats otherwise; a cell read from a row keeps that type. A product of an
  integer cell and a Python integer is a 64-bit product: it wraps around, and a factor
  outside the 64-bit range is refused. Floats are taken as the reals they denote; a Python
  integer too large for a float is refused.
\<close>

datatype price = Int64 "64 word" | Float64 real

definition price_int :: "price \<Rightarrow> int" where
  \<comment> \<open>\<^verbatim>\<open>int(x)\<close> on a cell\<close>
  "price_int p = (case p of Int64 w \<Rightarrow> sint w | Float64 x \<Rightarrow> py_int x)"

definition price_times :: "price \<Rightarrow> int \<Rightarrow> exception + price" where
  \<comment> \<open>\<^verbatim>\<open>x * jours\<close> on a cell and a Python integer\<close>
  "price_times p jours =
     (case p of
        Int64 w \<Rightarrow>
          if - (2 ^ 63) \<le> jours \<and> jours < 2 ^ 63 then Inr (Int64 (w * word_of_int jours))
          else Inl OverflowError
      | Float64 x \<Rightarrow>
          if \<bar>jours\<bar> < 2 ^ 1024 - 2 ^ 970 then Inr (Float64 (x * of_int jours))
          else Inl OverflowError)"

section \<open>Catalog, tables and model state\<close>

record config =
  type :: string
  budget :: string
  lieu :: string
  camera :: string
  objectif :: string
  lumieres :: string
  prix_jour :: price

text \<open>
  The columns \<^verbatim>\<open>complexity_score\<close> and \<^verbatim>\<open>budget_tier\<close> are computed once from each
  row when the catalog is loaded (\<^verbatim>\<open>_add_enhanced_features\<close>); they are functions of the row.
\<close>

definition calculate_complexity :: "config \<Rightarrow> nat" where
  "calculate_complexity row =
     1
     + (if contains (camera row) ''FX6'' \<or> contains (camera row) ''C70'' then 2
        else if contains (camera row) ''R6'' \<or> contains (camera row) ''A7III'' then 1 else 0)
     + (if contains (objectif row) ''L'' \<or> contains (objectif row) ''2.8'' then 1 else 0)
     + (if contains (lumieres row) ''Aputure'' \<or> contains (lumieres row) ''Arri'' then 1 else 0)"

definition budget_tier_map :: "string \<Rightarrow> real option" where
  \<comment> \<open>\<^verbatim>\<open>{'low': 1, 'medium': 2, 'high': 3}\<close>\<close>
  "budget_tier_map b =
     (if b = ''low'' then Some 1 else if b = ''medium'' then Some 2
      else if b = ''high'' then Some 3 else None)"

definition budget_tier :: "config \<Rightarrow> real" where
  \<comment> \<open>\<^verbatim>\<open>configs['budget'].map(budget_tier).fillna(2)\<close>\<close>
  "budget_tier row = (case budget_tier_map (budget row) of Some t \<Rightarrow> t | None \<Rightarrow> 2)"

definition e_acute :: char where "e_acute = CHR 0xE9"

definition exterieur :: string where "exterieur = ''ext'' @ [e_acute] @ ''rieur''"
definition interieur :: string where "interieur = ''int'' @ [e_acute] @ ''rieur''"
definition court_metrage :: string where "court_metrage = ''court-m'' @ [e_acute] @ ''trage''"

definition SYNONYMS :: "(string \<times> string) list" where
  \<comment> \<open>the dictionary in insertion order; the repeated key \<^verbatim>\<open>reportage\<close> keeps its last value\<close>
  "SYNONYMS =
    [(''faible'', ''low''), (''bas'', ''low''), (''petit'', ''low''),
     ([e_acute] @ ''conomique'', ''low''), (''pas cher'', ''low''),
     (''budget serr'' @ [e_acute], ''low''), (''limit'' @ [e_acute], ''low''),
     (''moyen'', ''medium''), (''standard'', ''medium''), (''normal'', ''medium''),
     (''correct'', ''medium''),
     ([e_acute] @ ''lev'' @ [e_acute], ''high''), (''fort'', ''high''), (''grand'', ''high''),
     (''cher'', ''high''), (''premium'', ''high''), (''luxe'', ''high''),
     (''haut de gamme'', ''high''),
     (exterieur, exterieur), (''ext'', exterieur), (''dehors'', exterieur),
     (''plein air'', exterieur), (''outdoor'', exterieur), (''nature'', exterieur),
     (interieur, interieur), (''int'', interieur), (''dedans'', interieur),
     (''indoor'', interieur), (''maison'', interieur),
     (''studio'', ''studio''), (''atelier'', ''studio''), (''salle'', ''studio''),
     (''publicit'' @ [e_acute], ''pub''), (''pub'', ''pub''), (''commercial'', ''pub''),
     (''marketing'', ''pub''),
     (''entretien'', ''interview''), (''interview'', ''interview''),
     (''reportage'', ''documentaire''),
     (''docu'', ''documentaire''), (''documentaire'', ''documentaire''),
     (''court'', court_metrage), (''m'' @ [e_acute] @ ''trage'', court_metrage),
     (court_metrage, court_metrage), (''film'', court_metrage),
     (''cin'' @ [e_acute] @ ''ma'', court_metrage),
     (''clip'', ''clip''), (''musical'', ''clip''), (''musique'', ''clip''),
     (''vid'' @ [e_acute] @ ''o musicale'', ''clip''),
     (''camera'', ''cam'' @ [e_acute] @ ''ra''), (''appareil'', ''cam'' @ [e_acute] @ ''ra''),
     (''boitier'', ''cam'' @ [e_acute] @ ''ra''),
     (''objectif'', ''objectif''), (''lens'', ''objectif''), (''optique'', ''objectif''),
     (''lumi'' @ [CHR 0xE8] @ ''re'', ''lumi'' @ [CHR 0xE8] @ ''res''),
     ([e_acute] @ ''clairage'', ''lumi'' @ [CHR 0xE8] @ ''res''),
     (''flash'', ''lumi'' @ [CHR 0xE8] @ ''res''),
     (''son'', ''audio''), (''micro'', ''audio''), (''microphone'', ''audio'')]"

text \<open>
  The model object. \<open>configs\<close> is the data frame: the rows in order, each with its index
  label. The labels are those the rows had when the file was read; rows with a missing
  value are dropped afterwards and the labels of the others stay, so the labels are
  increasing and need not be \<open>0, 1, 2, \<dots>\<close>.

  What the scoring code takes from its libraries is a field of the state:
  \<^item> \<open>enhanced_preprocess_text\<close>: the normaliser (regular expressions and the optional
    lemmatiser), a function on text;
  \<^item> \<open>semantic_similarity\<close>: embedding of the processed query, projection and cosine
    similarity against the stored embedding of catalog row \<open>i\<close>; \<open>None\<close> when the embedder
    raises;
  \<^item> \<open>set_order\<close>: the order in which Python iterates over a set of strings built from the
    given elements (fixed within one process);
  \<^item> \<open>argsort\<close>: numpy's \<^verbatim>\<open>argsort()\<close> of the default kind, which returns the positions in
    ascending order of the values and leaves the order of equal values to the sorting
    routine;
  \<^item> \<open>round_score\<close>: numpy's rounding of a float to three decimals;
  \<^item> \<open>library_text\<close>: the text of an exception raised inside numpy or pandas.
\<close>

record model =
  is_initialized :: bool
  configs :: "(nat \<times> config) list"
  enhanced_preprocess_text :: "string \<Rightarrow> string"
  semantic_similarity :: "string \<Rightarrow> (nat \<Rightarrow> real) option"
  set_order :: "string list \<Rightarrow> string list"
  argsort :: "real list \<Rightarrow> nat list"
  round_score :: "real \<Rightarrow> real"
  library_text :: "exception \<Rightarrow> string"

definition rows :: "model \<Rightarrow> config list" where
  "rows m = map snd (configs m)"

definition index :: "model \<Rightarrow> nat list" where
  \<comment> \<open>\<^verbatim>\<open>self.configs.index\<close>\<close>
  "index m = map fst (configs m)"

definition str_exception :: "model \<Rightarrow> exception \<Rightarrow> string" where
  \<comment> \<open>\<^verbatim>\<open>str(e)\<close>\<close>
  "str_exception m e =
     (case e of
        NotInitialized \<Rightarrow> ''Enhanced model not initialized''
      | KeyError k \<Rightarrow> k
      | _ \<Rightarrow> library_text m e)"

section \<open>Feature extraction\<close>

record features =
  f_budget :: "string option"
  f_lieu :: "string option"
  f_type :: "string option"
  specificity_score :: nat

definition budget_patterns :: "(string \<times> string list) list" where
  "budget_patterns =
    [(''low'', [''low'', ''faible'', ''petit'', [e_acute] @ ''conomique'', ''pas cher'',
                ''serr'' @ [e_acute]]),
     (''medium'', [''medium'', ''moyen'', ''normal'', ''standard'', ''correct'']),
     (''high'', [''high'', [e_acute] @ ''lev'' @ [e_acute], ''grand'', ''cher'', ''premium'',
                 ''luxe'', ''haut''])]"

definition LIEU_VALUES :: "model \<Rightarrow> string list" where
  "LIEU_VALUES m = set_order m [interieur, exterieur, ''studio'']"

definition TYPE_VALUES :: "model \<Rightarrow> string list" where
  \<comment> \<open>\<^verbatim>\<open>set(self.configs['type'].unique())\<close>\<close>
  "TYPE_VALUES m = set_order m (remdups (map type (rows m)))"

definition lieu_matches :: "string set \<Rightarrow> string \<Rightarrow> bool" where
  "lieu_matches words l =
     (l \<in> words \<or> list_ex (\<lambda>(syn, std). std = l \<and> syn \<in> words) SYNONYMS)"

definition extract_enhanced_features :: "model \<Rightarrow> string \<Rightarrow> features" where
  "extract_enhanced_features m query =
    (let processed_query = enhanced_preprocess_text m query;
         words = set (str_split processed_query);
         f0 = \<lparr>f_budget = None, f_lieu = None, f_type = None, specificity_score = 0\<rparr>;
         f1 = (case find (\<lambda>(b, patterns). list_ex (contains processed_query) patterns)
                      budget_patterns of
                 None \<Rightarrow> f0
               | Some (b, patterns) \<Rightarrow>
                   f0\<lparr>f_budget := Some b, specificity_score := specificity_score f0 + 1\<rparr>);
         f2 = (case find (lieu_matches words) (LIEU_VALUES m) of
                 None \<Rightarrow> f1
               | Some l \<Rightarrow> f1\<lparr>f_lieu := Some l, specificity_score := specificity_score f1 + 1\<rparr>);
         f3 = (case find (\<lambda>ptype. ptype \<in> words) (TYPE_VALUES m) of
                 None \<Rightarrow> f2
               | Some t \<Rightarrow> f2\<lparr>f_type := Some t, specificity_score := specificity_score f2 + 2\<rparr>)
     in if \<not> truthy (f_type f3) then
          (if list_ex (contains processed_query) [''mariage'', ''wedding'', ''photo'']
           then f3\<lparr>f_type := Some ''pub'', specificity_score := specificity_score f3 + 1\<rparr>
           else if list_ex (contains processed_query) [''entretien'', ''reportage'']
           then f3\<lparr>f_type := Some ''interview'', specificity_score := specificity_score f3 + 1\<rparr>
           else f3)
        else f3)"

section \<open>Scoring\<close>

text \<open>
  An array of scores is a numpy array, read by position, or a pandas Series that carries
  the labels of the data frame and is read by label. The product of a numpy array and a
  Series is a Series, so the scores are a Series as soon as one boost was added for an
  extracted feature.
\<close>

datatype scores = NdArray "real list" | Series "(nat \<times> real) list"

fun values_of :: "scores \<Rightarrow> real list" where
  "values_of (NdArray xs) = xs"
| "values_of (Series kvs) = map snd kvs"

fun map_scores :: "(real \<Rightarrow> real) \<Rightarrow> scores \<Rightarrow> scores" where
  "map_scores f (NdArray xs) = NdArray (map f xs)"
| "map_scores f (Series kvs) = Series (map (\<lambda>(k, v). (k, f v)) kvs)"

definition keyword_score :: "string set \<Rightarrow> string set \<Rightarrow> real" where
  "keyword_score query_words config_words =
    (let intersection = card (query_words \<inter> config_words);
         union = card (query_words \<union> config_words);
         exact_matches = card (Set.filter (\<lambda>word. word \<in> config_words) query_words);
         jaccard = (if union > 0 then real intersection / real union else 0)
     in jaccard + real exact_matches * (1 / 10))"

definition config_words :: "model \<Rightarrow> config \<Rightarrow> string set" where
  "config_words m row =
     set (str_split (enhanced_preprocess_text m (type row @ '' '' @ budget row @ '' '' @ lieu row)))"

definition boost_strength :: "features \<Rightarrow> real" where
  "boost_strength extracted = 3 / 10 + real (specificity_score extracted) * (1 / 10)"

definition match :: "string \<Rightarrow> string option \<Rightarrow> real" where
  \<comment> \<open>\<^verbatim>\<open>(column == value).astype(float)\<close> on one row\<close>
  "match field v = (if Some field = v then 1 else 0)"

definition boost :: "features \<Rightarrow> config \<Rightarrow> real" where
  "boost extracted row =
     1
     + (if truthy (f_type extracted)
        then boost_strength extracted * match (type row) (f_type extracted) else 0)
     + (if truthy (f_budget extracted)
        then boost_strength extracted * match (budget row) (f_budget extracted) else 0)
     + (if truthy (f_lieu extracted)
        then boost_strength extracted * match (lieu row) (f_lieu extracted) else 0)"

definition quality_scores :: "config list \<Rightarrow> real list" where
  "quality_scores cfgs =
     map (\<lambda>row. real (calculate_complexity row) / real (Max (set (map calculate_complexity cfgs))))
         cfgs"

definition price_scores :: "features \<Rightarrow> config list \<Rightarrow> exception + real list" where
  "price_scores extracted cfgs =
     (case f_budget extracted of
        None \<Rightarrow> Inr (map (\<lambda>row. 1) cfgs)
      | Some b \<Rightarrow>
          if b = [] then Inr (map (\<lambda>row. 1) cfgs)
          else (case budget_tier_map b of
                  None \<Rightarrow> Inl (KeyError ([CHR 0x27] @ b @ [CHR 0x27]))
                | Some tier \<Rightarrow> Inr (map (\<lambda>row. 1 - \<bar>budget_tier row - tier\<bar> / 3) cfgs)))"

definition combine :: "real \<Rightarrow> real \<Rightarrow> real \<Rightarrow> real \<Rightarrow> real \<Rightarrow> real" where
  "combine semantic keyword bst quality price =
     (semantic * (4 / 10) + keyword * (3 / 10)) * bst * (1 + quality * (2 / 10))
       * (8 / 10 + price * (2 / 10))"

definition raw_scores :: "model \<Rightarrow> string \<Rightarrow> exception + scores" where
  \<comment> \<open>steps 1 to 6 of \<^verbatim>\<open>_calculate_enhanced_scores\<close> on the processed query:
      \<^verbatim>\<open>final_scores\<close> before normalisation. The cosine similarity to an empty matrix of
      embeddings is refused.\<close>
  "raw_scores m processed_query =
    (case semantic_similarity m processed_query of
       None \<Rightarrow> Inl EmbeddingError
     | Some sem \<Rightarrow>
        if configs m = [] then Inl ValueError
        else
        (let cfgs = rows m;
             query_words = set (str_split processed_query);
             keyword_scores = map (\<lambda>row. keyword_score query_words (config_words m row)) cfgs;
             extracted = extract_enhanced_features m processed_query;
             boosts = map (boost extracted) cfgs;
             quality = quality_scores cfgs
         in case price_scores extracted cfgs of
              Inl e \<Rightarrow> Inl e
            | Inr price \<Rightarrow>
                (let final_scores =
                       map (\<lambda>i. combine (sem i) (keyword_scores ! i) (boosts ! i) (quality ! i)
                                         (price ! i))
                           [0..<length cfgs]
                 in Inr (if truthy (f_type extracted) \<or> truthy (f_budget extracted)
                            \<or> truthy (f_lieu extracted)
                         then Series (zip (index m) final_scores)
                         else NdArray final_scores))))"

definition normalize_scores :: "scores \<Rightarrow> exception + scores" where
  \<comment> \<open>\<^verbatim>\<open>max()\<close> of an empty array raises; that of an empty Series is not a number, which
      is not above 0\<close>
  "normalize_scores final_scores =
     (let vs = values_of final_scores
      in if vs = [] then (case final_scores of
                            NdArray xs \<Rightarrow> Inl ValueError
                          | Series kvs \<Rightarrow> Inr final_scores)
         else if Max (set vs) > 0
         then Inr (map_scores (\<lambda>x. x / Max (set vs)) final_scores)
         else Inr final_scores)"

definition try_enhanced_scores :: "model \<Rightarrow> string \<Rightarrow> exception + scores" where
  \<comment> \<open>the body of the \<^verbatim>\<open>try\<close> of \<^verbatim>\<open>_calculate_enhanced_scores\<close>\<close>
  "try_enhanced_scores m query =
    (let processed_query = enhanced_preprocess_text m query
     in if processed_query = [] then Inr (NdArray (map (\<lambda>row. 0) (configs m)))
        else (case raw_scores m processed_query of
                Inl e \<Rightarrow> Inl e
              | Inr final_scores \<Rightarrow> normalize_scores final_scores))"

definition calculate_enhanced_scores :: "model \<Rightarrow> (nat \<Rightarrow> real) \<Rightarrow> string \<Rightarrow> scores" where
  \<comment> \<open>\<open>rnd i\<close> is the \<open>i\<close>-th draw of \<^verbatim>\<open>np.random.uniform(0.1, 0.3, n)\<close>, used when the
      body raises\<close>
  "calculate_enhanced_scores m rnd query =
    (case try_enhanced_scores m query of
       Inr scores \<Rightarrow> scores
     | Inl e \<Rightarrow> NdArray (map rnd [0..<length (configs m)]))"

section \<open>Ranking and selection\<close>

type_synonym combo = "string \<times> string \<times> string"

definition combo_key :: "config \<Rightarrow> combo" where
  "combo_key row = (type row, budget row, lieu row)"

definition shared_fields :: "combo \<Rightarrow> combo \<Rightarrow> nat" where
  \<comment> \<open>\<^verbatim>\<open>sum(a == b for a, b in zip(combo_key, seen))\<close>\<close>
  "shared_fields key seen =
     (case key of (a1, a2, a3) \<Rightarrow> case seen of (b1, b2, b3) \<Rightarrow>
        (if a1 = b1 then 1 else 0) + (if a2 = b2 then 1 else 0) + (if a3 = b3 then 1 else 0))"

definition similar_count :: "combo \<Rightarrow> combo set \<Rightarrow> nat" where
  "similar_count key seen_combinations =
     card (Set.filter (\<lambda>seen. 2 \<le> shared_fields key seen) seen_combinations)"

record result =
  r_type :: string
  r_budget :: string
  r_lieu :: string
  r_camera :: string
  r_objectif :: string
  r_lumieres :: string
  r_prix_jour :: int
  prix_total :: int
  duree :: int
  score :: real
  confidence :: string
  complexity_score :: nat
  quality_rating :: int

definition calculate_confidence :: "real \<Rightarrow> string" where
  "calculate_confidence s =
     (if s > 8 / 10 then ''excellent''
      else if s > 6 / 10 then ''very_good''
      else if s > 4 / 10 then ''good''
      else if s > 2 / 10 then ''fair''
      else ''low'')"

definition enhanced_result :: "model \<Rightarrow> config \<Rightarrow> real \<Rightarrow> int \<Rightarrow> exception + result" where
  \<comment> \<open>the dictionary built for an accepted row with the score \<open>sim\<close> that was read for it;
      the product of the price and the duration can raise\<close>
  "enhanced_result m row sim jours =
     (case price_times (prix_jour row) jours of
        Inl e \<Rightarrow> Inl e
      | Inr product \<Rightarrow>
          Inr \<lparr>r_type = type row, r_budget = budget row, r_lieu = lieu row,
               r_camera = camera row, r_objectif = objectif row, r_lumieres = lumieres row,
               r_prix_jour = price_int (prix_jour row),
               prix_total = price_int product,
               duree = jours,
               score = round_score m sim,
               confidence = calculate_confidence sim,
               complexity_score = calculate_complexity row,
               quality_rating = min 5 (py_round (sim * 5 + 1))\<rparr>)"

definition quality_threshold :: real where
  "quality_threshold = 15 / 100"

definition top_indices :: "model \<Rightarrow> scores \<Rightarrow> nat list" where
  \<comment> \<open>\<^verbatim>\<open>similarities.argsort()[::-1]\<close>: positions, for an array and for a Series\<close>
  "top_indices m similarities = rev (argsort m (values_of similarities))"

definition score_at :: "scores \<Rightarrow> nat \<Rightarrow> exception + real" where
  \<comment> \<open>\<^verbatim>\<open>similarities[idx]\<close>: by position in an array, by label in a Series\<close>
  "score_at similarities idx =
     (case similarities of
        NdArray xs \<Rightarrow> if idx < length xs then Inr (xs ! idx) else Inl IndexError
      | Series kvs \<Rightarrow>
          (case map_of kvs idx of
             None \<Rightarrow> Inl (KeyError (string_of_nat idx))
           | Some v \<Rightarrow> Inr v))"

definition selector_step ::
  "model \<Rightarrow> scores \<Rightarrow> int \<Rightarrow> nat \<Rightarrow> result list \<times> combo set
     \<Rightarrow> exception + result list \<times> combo set" where
  \<comment> \<open>one pass of the loop body below the \<^verbatim>\<open>break\<close> test, on the state
      \<open>(results, seen_combinations)\<close>; the row is read by position\<close>
  "selector_step m similarities jours idx st =
    (let results = fst st; seen_combinations = snd st
     in if length (configs m) \<le> idx then Inl IndexError
        else
          (let row = snd (configs m ! idx);
               key = combo_key row
           in if similar_count key seen_combinations \<ge> 2 then Inr (results, seen_combinations)
              else
                (case score_at similarities idx of
                   Inl e \<Rightarrow> Inl e
                 | Inr sim \<Rightarrow>
                     if sim < quality_threshold
                     then Inr (results, insert key seen_combinations)
                     else (case enhanced_result m row sim jours of
                             Inl e \<Rightarrow> Inl e
                           | Inr r \<Rightarrow> Inr (results @ [r], insert key seen_combinations)))))"

fun selector_walk ::
  "model \<Rightarrow> scores \<Rightarrow> int \<Rightarrow> nat list \<Rightarrow> result list \<times> combo set
     \<Rightarrow> exception + result list \<times> combo set" where
  "selector_walk m similarities jours [] st = Inr st"
| "selector_walk m similarities jours (idx # rest) st =
     (if length (fst st) \<ge> 5 then Inr st
      else (case selector_step m similarities jours idx st of
              Inl e \<Rightarrow> Inl e
            | Inr st' \<Rightarrow> selector_walk m similarities jours rest st'))"

definition build_results :: "model \<Rightarrow> scores \<Rightarrow> int \<Rightarrow> exception + result list" where
  "build_results m similarities jours =
     (case selector_walk m similarities jours (top_indices m similarities) ([], {}) of
        Inl e \<Rightarrow> Inl e
      | Inr st \<Rightarrow> Inr (fst st))"

record response =
  success :: bool
  message :: string
  recommendations :: "result list"
  query :: "string option"
  duration_days :: "int option"
  extracted_features :: "features option"
  model_confidence :: "real option"

definition failure :: "string \<Rightarrow> response" where
  \<comment> \<open>the three-key dictionary of the two failure returns\<close>
  "failure msg =
     \<lparr>success = False, message = msg, recommendations = [], query = None,
      duration_days = None, extracted_features = None, model_confidence = None\<rparr>"

definition mean :: "real list \<Rightarrow> real" where
  "mean xs = sum_list xs / real (length xs)"

definition try_recommendations ::
  "model \<Rightarrow> (nat \<Rightarrow> real) \<Rightarrow> string \<Rightarrow> int \<Rightarrow> exception + response" where
  \<comment> \<open>the body of the \<^verbatim>\<open>try\<close> of \<^verbatim>\<open>get_recommendations\<close>; \<open>Inl\<close> is a raised
      exception\<close>
  "try_recommendations m rnd user_query jours =
    (if \<not> is_initialized m then Inl NotInitialized
     else if length (strip user_query) < 3
     then Inr (failure ''Query too short. Please be more specific.'')
     else
       (let similarities = calculate_enhanced_scores m rnd user_query
        in case build_results m similarities jours of
             Inl e \<Rightarrow> Inl e
           | Inr results \<Rightarrow>
               (let ok = (length results > 0);
                    msg = (if ok then ''Found '' @ string_of_nat (length results)
                                       @ '' high-quality recommendations''
                           else ''No close matches found'')
                in Inr \<lparr>success = ok, message = msg, recommendations = results,
                         query = Some user_query, duration_days = Some jours,
                         extracted_features = Some (extract_enhanced_features m user_query),
                         model_confidence =
                           Some (if results \<noteq> [] then mean (map score results) else 0)\<rparr>)))"

definition get_recommendations ::
  "model \<Rightarrow> (nat \<Rightarrow> real) \<Rightarrow> string \<Rightarrow> int \<Rightarrow> response" where
  \<comment> \<open>the \<^verbatim>\<open>except\<close> clause turns any exception into the failure dictionary with its text\<close>
  "get_recommendations m rnd user_query jours =
    (case try_recommendations m rnd user_query jours of
       Inr r \<Rightarrow> r
     | Inl e \<Rightarrow> failure (str_exception m e))"

section \<open>Example data\<close>

text \<open>
  A catalog row of the generated sample catalog, and a model whose normaliser leaves the
  example texts as they are: they are lower-case words without punctuation, and the synonym
  keys that occur in them (\<^verbatim>\<open>clip\<close>, \<^verbatim>\<open>studio\<close>) map to themselves. The embedder's
  answer is given with the model. The index of the data frame is \<open>0, 1, 2, \<dots>\<close>: no row
  was dropped. The sorting routine is the insertion sort that numpy's generic quicksort
  runs on a partition of at most 16 elements, which leaves equal values in index order;
  the rounding to three decimals is exact on the scores of the examples.
\<close>

definition priced_row :: "price \<Rightarrow> config" where
  "priced_row p =
     \<lparr>type = ''clip'', budget = ''low'', lieu = ''studio'',
      camera = ''Sony A6400'', objectif = ''Canon 50mm f/1.8'',
      lumieres = ''Neewer LED Panel'', prix_jour = p\<rparr>"

definition clip_row :: "real \<Rightarrow> config" where
  "clip_row p = priced_row (Float64 p)"

definition insertion_argsort :: "real list \<Rightarrow> nat list" where
  "insertion_argsort xs = sort_key (\<lambda>i. xs ! i) [0..<length xs]"

definition plain_model :: "bool \<Rightarrow> config list \<Rightarrow> (nat \<Rightarrow> real) option \<Rightarrow> model" where
  "plain_model init cfgs sem =
     \<lparr>is_initialized = init, configs = zip [0..<length cfgs] cfgs,
      enhanced_preprocess_text = (\<lambda>text. text),
      semantic_similarity = (\<lambda>q. sem),
      set_order = (\<lambda>xs. xs),
      argsort = insertion_argsort,
      round_score = decimals3,
      library_text = (\<lambda>e. [])\<rparr>"

text \<open>Two outcomes of the random draws of the fallback, both inside \<open>[0.1, 0.3)\<close>.\<close>

definition low_draws :: "nat \<Rightarrow> real" where
  "low_draws i = 12 / 100"

definition high_draws :: "nat \<Rightarrow> real" where
  "high_draws i = 2 / 10"

text \<open>Answers of the embedder: the cosine similarity to the stored embedding of row \<open>i\<close>.\<close>

definition half :: "nat \<Rightarrow> real" where
  "half i = 1 / 2"

definition zero_sim :: "nat \<Rightarrow> real" where
  "zero_sim i = 0"

definition mixed_sim :: "nat \<Rightarrow> real" where
  "mixed_sim i = (if i = 0 then - (1 / 2) else 1 / 2)"

definition neg_sim :: "nat \<Rightarrow> real" where
  "neg_sim i = - (1 / 2)"

text \<open>
  A data frame of two rows read from a file of three whose second row had a missing value:
  the labels are 0 and 2.
\<close>

definition gapped_model :: model where
  "gapped_model =
     (plain_model True [] (Some neg_sim))\<lparr>configs := [(0, clip_row 100), (2, clip_row 100)]\<rparr>"

section \<open>Conditions on the catalog\<close>

definition whole_in_range :: "price \<Rightarrow> int \<Rightarrow> bool" where
  \<comment> \<open>the price is a whole number and its product with the duration is inside the range in
      which the arithmetic of its type is exact: 64 bits for an integer, 53 for a float\<close>
  "whole_in_range p jours =
     (case p of
        Int64 w \<Rightarrow> - (2 ^ 63) \<le> sint w * jours \<and> sint w * jours < 2 ^ 63
      | Float64 x \<Rightarrow> of_int \<lfloor>x\<rfloor> = x \<and> \<bar>x * of_int jours\<bar> < 2 ^ 53)"

section \<open>Reading a score\<close>

lemma values_of_map_scores: "values_of (map_scores f sc) = map f (values_of sc)"
  by (cases sc) (auto simp: case_prod_unfold)

lemma score_at_in_values:
  assumes "score_at similarities idx = Inr s"
  shows "s \<in> set (values_of similarities)"
proof (cases similarities)
  case (NdArray xs)
  with assms show ?thesis by (auto simp: score_at_def split: if_splits)
next
  case (Series kvs)
  with assms have "map_of kvs idx = Some s"
    by (auto simp: score_at_def split: option.splits)
  then have "(idx, s) \<in> set kvs" by (rule map_of_SomeD)
  then have "snd (idx, s) \<in> snd ` set kvs" by (rule imageI)
  with Series show ?thesis by simp
qed

lemma map_of_default_labels:
  assumes "map fst kvs = [0..<n]" and "idx < n"
  shows "map_of kvs idx = Some (snd (kvs ! idx))"
proof -
  have len: "length kvs = n" using assms(1) by (metis length_map length_upt minus_nat.diff_0)
  have kvs: "kvs = zip (map fst kvs) (map snd kvs)" by (simp add: zip_map_fst_snd)
  have "map_of (zip [0..<n] (map snd kvs)) ([0..<n] ! idx) = Some (map snd kvs ! idx)"
    by (rule map_of_zip_nth) (use len assms(2) in auto)
  then show ?thesis using kvs assms len by (metis add_0 nth_map nth_upt)
qed

lemma labels_of_scores:
  "(case calculate_enhanced_scores m rnd q of
      NdArray xs \<Rightarrow> length xs = length (configs m)
    | Series kvs \<Rightarrow> map fst kvs = index m)"
  by (auto simp: calculate_enhanced_scores_def try_enhanced_scores_def raw_scores_def
      normalize_scores_def Let_def index_def rows_def case_prod_unfold comp_def
      split: sum.splits option.splits if_splits scores.splits)

lemma length_calculate_enhanced_scores:
  "length (values_of (calculate_enhanced_scores m rnd q)) = length (configs m)"
  using labels_of_scores [of m rnd q]
  by (cases "calculate_enhanced_scores m rnd q") (auto simp: index_def dest: arg_cong [of _ _ length])

lemma score_at_default_labels:
  assumes "index m = [0..<length (configs m)]" and "idx < length (configs m)"
  shows "\<exists>s. score_at (calculate_enhanced_scores m rnd q) idx = Inr s"
proof (cases "calculate_enhanced_scores m rnd q")
  case (NdArray xs)
  with labels_of_scores [of m rnd q] assms(2) show ?thesis by (simp add: score_at_def)
next
  case (Series kvs)
  with labels_of_scores [of m rnd q] assms(1) have "map fst kvs = [0..<length (configs m)]"
    by simp
  from map_of_default_labels [OF this assms(2)] Series show ?thesis
    by (simp add: score_at_def)
qed

section \<open>The walk of the selector\<close>

lemma selector_step_results:
  assumes "selector_step m similarities jours idx st = Inr st'"
    and "\<forall>r \<in> set (fst st). P r"
    and "\<And>s r. idx < length (configs m) \<Longrightarrow> score_at similarities idx = Inr s
          \<Longrightarrow> quality_threshold \<le> s
          \<Longrightarrow> enhanced_result m (snd (configs m ! idx)) s jours = Inr r \<Longrightarrow> P r"
  shows "\<forall>r \<in> set (fst st'). P r"
  using assms
  by (auto simp: selector_step_def Let_def not_less split: if_splits sum.splits)

lemma selector_walk_results:
  assumes "selector_walk m similarities jours idxs st = Inr st'"
    and "\<forall>r \<in> set (fst st). P r"
    and "\<And>idx s r. idx \<in> set idxs \<Longrightarrow> idx < length (configs m)
          \<Longrightarrow> score_at similarities idx = Inr s \<Longrightarrow> quality_threshold \<le> s
          \<Longrightarrow> enhanced_result m (snd (configs m ! idx)) s jours = Inr r \<Longrightarrow> P r"
  shows "\<forall>r \<in> set (fst st'). P r"
  using assms
proof (induction idxs arbitrary: st)
  case Nil
  then show ?case by simp
next
  case (Cons idx rest)
  show ?case
  proof (cases "length (fst st) \<ge> 5")
    case True
    then show ?thesis using Cons.prems(1,2) by simp
  next
    case False
    with Cons.prems(1) obtain st1 where
      step: "selector_step m similarities jours idx st = Inr st1"
      and walk: "selector_walk m similarities jours rest st1 = Inr st'"
      by (auto split: sum.splits)
    have "\<forall>r \<in> set (fst st1). P r"
      by (rule selector_step_results [OF step Cons.prems(2)]) (use Cons.prems(3) in auto)
    then show ?thesis
      by (rule Cons.IH [OF walk]) (use Cons.prems(3) in auto)
  qed
qed

lemma build_results_accepted:
  assumes "build_results m similarities jours = Inr results" and "r \<in> set results"
  shows "\<exists>idx s. idx < length (configs m) \<and> score_at similarities idx = Inr s
           \<and> quality_threshold \<le> s
           \<and> enhanced_result m (snd (configs m ! idx)) s jours = Inr r"
proof -
  let ?P = "\<lambda>r. \<exists>idx s. idx < length (configs m) \<and> score_at similarities idx = Inr s
           \<and> quality_threshold \<le> s
           \<and> enhanced_result m (snd (configs m ! idx)) s jours = Inr r"
  from assms(1) obtain st' where
    walk: "selector_walk m similarities jours (top_indices m similarities) ([], {}) = Inr st'"
    and res: "results = fst st'"
    by (auto simp: build_results_def split: sum.splits)
  have "\<forall>r \<in> set (fst st'). ?P r"
    by (rule selector_walk_results [OF walk]) auto
  with res assms(2) show ?thesis by blast
qed

lemma recommendations_cases:
  "recommendations (get_recommendations m rnd user_query jours)
     = (if is_initialized m \<and> 3 \<le> length (strip user_query)
        then (case build_results m (calculate_enhanced_scores m rnd user_query) jours of
                Inl e \<Rightarrow> [] | Inr results \<Rightarrow> results)
        else [])"
  by (simp add: get_recommendations_def try_recommendations_def failure_def Let_def not_less
      split: sum.splits)

lemma recommendations_accepted:
  assumes "r \<in> set (recommendations (get_recommendations m rnd user_query jours))"
  shows "\<exists>idx s. idx < length (configs m)
           \<and> score_at (calculate_enhanced_scores m rnd user_query) idx = Inr s
           \<and> quality_threshold \<le> s
           \<and> enhanced_result m (snd (configs m ! idx)) s jours = Inr r"
proof (cases "build_results m (calculate_enhanced_scores m rnd user_query) jours")
  case (Inl e)
  then have "recommendations (get_recommendations m rnd user_query jours) = []"
    by (simp add: recommendations_cases)
  with assms show ?thesis by simp
next
  case (Inr results)
  then have "recommendations (get_recommendations m rnd user_query jours) = results
             \<or> recommendations (get_recommendations m rnd user_query jours) = []"
    by (simp add: recommendations_cases)
  with assms have mem: "r \<in> set results" by auto
  show ?thesis by (rule build_results_accepted [OF Inr mem])
qed

lemma selector_step_no_accept:
  assumes "\<forall>s \<in> set (values_of similarities). s < quality_threshold"
    and "selector_step m similarities jours idx st = Inr st'"
  shows "fst st' = fst st"
  using assms score_at_in_values [of similarities idx]
  by (auto simp: selector_step_def Let_def split: if_splits sum.splits)

lemma selector_walk_no_accept:
  assumes "\<forall>s \<in> set (values_of similarities). s < quality_threshold"
    and "selector_walk m similarities jours idxs st = Inr st'"
  shows "fst st' = fst st"
  using assms(2)
proof (induction idxs arbitrary: st)
  case Nil
  then show ?case by simp
next
  case (Cons idx rest)
  show ?case
  proof (cases "length (fst st) \<ge> 5")
    case True
    then show ?thesis using Cons.prems by simp
  next
    case False
    with Cons.prems obtain st1 where
      step: "selector_step m similarities jours idx st = Inr st1"
      and walk: "selector_walk m similarities jours rest st1 = Inr st'"
      by (auto split: sum.splits)
    from Cons.IH [OF walk] selector_step_no_accept [OF assms(1) step] show ?thesis by simp
  qed
qed

lemma selector_step_no_raise:
  assumes "\<forall>s \<in> set (values_of similarities). s < quality_threshold"
    and "idx < length (configs m)" and "score_at similarities idx = Inr s"
  shows "\<exists>st'. selector_step m similarities jours idx st = Inr st'"
  using assms score_at_in_values [OF assms(3)]
  by (auto simp: selector_step_def Let_def)

lemma selector_walk_no_raise:
  assumes "\<forall>s \<in> set (values_of similarities). s < quality_threshold"
    and "\<forall>idx \<in> set idxs. idx < length (configs m)"
    and "\<forall>idx < length (configs m). \<exists>s. score_at similarities idx = Inr s"
  shows "\<exists>st'. selector_walk m similarities jours idxs st = Inr st'"
  using assms(2)
proof (induction idxs arbitrary: st)
  case Nil
  then show ?case by simp
next
  case (Cons idx rest)
  show ?case
  proof (cases "length (fst st) \<ge> 5")
    case True
    then show ?thesis by simp
  next
    case False
    from Cons.prems have idx: "idx < length (configs m)" by simp
    with assms(3) obtain s where "score_at similarities idx = Inr s" by blast
    from selector_step_no_raise [OF assms(1) idx this] obtain st1 where
      step: "selector_step m similarities jours idx st = Inr st1" by blast
    from Cons.IH [of st1] Cons.prems obtain st' where
      "selector_walk m similarities jours rest st1 = Inr st'" by auto
    with step False show ?thesis by simp
  qed
qed


lemma py_int_of_int: "py_int (of_int k) = k"
  by (simp add: py_int_def)

section \<open>Arithmetic of the prices\<close>

lemma sint_times_in_range:
  fixes w :: "64 word"
  assumes "- (2 ^ 63) \<le> j" "j < 2 ^ 63"
    and "- (2 ^ 63) \<le> sint w * j" "sint w * j < 2 ^ 63"
  shows "sint (w * word_of_int j) = sint w * j"
proof -
  have "sint (word_of_int j :: 64 word) = signed_take_bit 63 j"
    by (simp add: sint_sbintrunc')
  also have "\<dots> = j" using assms(1,2) by (intro signed_take_bit_int_eq_self) auto
  finally have j: "sint (word_of_int j :: 64 word) = j" .
  have "sint (w * word_of_int j) = signed_take_bit 63 (sint w * j)"
    by (simp add: sint_word_mult j)
  also have "\<dots> = sint w * j" using assms(3,4) by (intro signed_take_bit_int_eq_self) auto
  finally show ?thesis .
qed

lemma price_times_whole:
  assumes "jours \<in> {1, 7, 30}" and "whole_in_range p jours"
  shows "\<exists>t. price_times p jours = Inr t \<and> price_int t = price_int p * jours"
proof (cases p)
  case (Int64 w)
  from assms(1) have r: "- (2 ^ 63) \<le> jours" "jours < 2 ^ 63" by auto
  from assms(2) Int64 have "- (2 ^ 63) \<le> sint w * jours" "sint w * jours < 2 ^ 63"
    by (simp_all add: whole_in_range_def)
  from sint_times_in_range [OF r this] r Int64 show ?thesis
    by (simp add: price_times_def price_int_def)
next
  case (Float64 x)
  from assms(2) Float64 have x: "x = of_int \<lfloor>x\<rfloor>" by (auto simp: whole_in_range_def)
  have "(30 :: int) < 2 ^ 1024 - 2 ^ 970" by simp
  with assms(1) have r: "\<bar>jours\<bar> < 2 ^ 1024 - 2 ^ 970" by auto
  have "py_int (of_int \<lfloor>x\<rfloor> * of_int jours) = \<lfloor>x\<rfloor> * jours"
    using py_int_of_int [of "\<lfloor>x\<rfloor> * jours"] by simp
  with x have "py_int (x * of_int jours) = py_int x * jours"
    by (metis py_int_of_int)
  with r Float64 show ?thesis
    by (simp add: price_times_def price_int_def)
qed

section \<open>The examples, evaluated\<close>

text \<open>The one-row catalog with an integer price, queried with a word of the row.\<close>

lemma single_row_scores:
  "try_enhanced_scores (plain_model True [clip_row p] (Some half)) ''clip'' = Inr (Series [(0, 1)])"
  by code_simp

lemma single_row_recommendations:
  "recommendations (get_recommendations (plain_model True [priced_row (Int64 100)] (Some half))
      low_draws ''clip'' 7)
   = [\<lparr>r_type = ''clip'', r_budget = ''low'', r_lieu = ''studio'',
       r_camera = ''Sony A6400'', r_objectif = ''Canon 50mm f/1.8'',
       r_lumieres = ''Neewer LED Panel'', r_prix_jour = 100, prix_total = 700,
       duree = 7, score = 1, confidence = ''excellent'', complexity_score = 1,
       quality_rating = 5\<rparr>]"
  by code_simp

text \<open>The same with a price of 100.5, and with an integer price whose product overflows.\<close>

lemma fractional_row_recommendations:
  "recommendations (get_recommendations (plain_model True [clip_row (201 / 2)] (Some half))
      low_draws ''clip'' 7)
   = [\<lparr>r_type = ''clip'', r_budget = ''low'', r_lieu = ''studio'',
       r_camera = ''Sony A6400'', r_objectif = ''Canon 50mm f/1.8'',
       r_lumieres = ''Neewer LED Panel'', r_prix_jour = 100, prix_total = 703,
       duree = 7, score = 1, confidence = ''excellent'', complexity_score = 1,
       quality_rating = 5\<rparr>]"
  by code_simp

lemma overflow_row_recommendations:
  "recommendations (get_recommendations
      (plain_model True [priced_row (Int64 400000000000000000)] (Some half))
      low_draws ''clip'' 30)
   = [\<lparr>r_type = ''clip'', r_budget = ''low'', r_lieu = ''studio'',
       r_camera = ''Sony A6400'', r_objectif = ''Canon 50mm f/1.8'',
       r_lumieres = ''Neewer LED Panel'', r_prix_jour = 400000000000000000,
       prix_total = - 6446744073709551616,
       duree = 30, score = 1, confidence = ''excellent'', complexity_score = 1,
       quality_rating = 5\<rparr>]"
  by code_simp

text \<open>Two rows with the same type, budget and place, and the same score.\<close>

lemma twin_rows_recommendations:
  "recommendations (get_recommendations
      (plain_model True [clip_row 100, clip_row 100] (Some half)) low_draws ''clip'' 1)
   = [\<lparr>r_type = ''clip'', r_budget = ''low'', r_lieu = ''studio'',
       r_camera = ''Sony A6400'', r_objectif = ''Canon 50mm f/1.8'',
       r_lumieres = ''Neewer LED Panel'', r_prix_jour = 100, prix_total = 100,
       duree = 1, score = 1, confidence = ''excellent'', complexity_score = 1,
       quality_rating = 5\<rparr>,
      \<lparr>r_type = ''clip'', r_budget = ''low'', r_lieu = ''studio'',
       r_camera = ''Sony A6400'', r_objectif = ''Canon 50mm f/1.8'',
       r_lumieres = ''Neewer LED Panel'', r_prix_jour = 100, prix_total = 100,
       duree = 1, score = 1, confidence = ''excellent'', complexity_score = 1,
       quality_rating = 5\<rparr>]"
  by code_simp

text \<open>A query that shares no word with the catalog, under three answers of the embedder.\<close>

lemma no_overlap_zero_scores:
  "calculate_enhanced_scores (plain_model True [clip_row p] (Some zero_sim)) rnd ''abc''
   = NdArray [0]"
  by code_simp

lemma no_overlap_mixed_raw:
  "raw_scores (plain_model True [clip_row p, clip_row p'] (Some mixed_sim)) ''abc''
   = Inr (NdArray [- (6 / 25), 6 / 25])"
  by code_simp

lemma no_overlap_mixed_scores:
  "calculate_enhanced_scores (plain_model True [clip_row p, clip_row p'] (Some mixed_sim))
     rnd ''abc'' = NdArray [- 1, 1]"
  by code_simp

lemma no_overlap_negative_raw:
  "raw_scores (plain_model True [clip_row p, clip_row p'] (Some neg_sim)) ''abc''
   = Inr (NdArray [- (6 / 25), - (6 / 25)])"
  by code_simp

lemma no_overlap_negative_scores:
  "calculate_enhanced_scores (plain_model True [clip_row p, clip_row p'] (Some neg_sim))
     rnd ''abc'' = NdArray [- (6 / 25), - (6 / 25)]"
  by code_simp

text \<open>
  The data frame with the labels 0 and 2, a query that names a budget and negative
  similarities: the scores are a Series, none reaches the threshold, and the score of the
  position 1 is asked under the label 1.
\<close>

lemma gapped_index_scores:
  "calculate_enhanced_scores gapped_model low_draws ''low''
   = Series [(0, - (147 / 1250)), (2, - (147 / 1250))]"
  by code_simp

lemma gapped_index_key_error:
  "try_recommendations gapped_model low_draws ''low'' 1 = Inl (KeyError ''1'')
   \<and> get_recommendations gapped_model low_draws ''low'' 1 = failure ''1''"
  by code_simp

section \<open>Diversity of the accepted results\<close>

text \<open>
  C1. The claim is that the final list never holds two accepted results whose
  (type, budget, lieu) keys agree on all three fields. The loop counts the seen keys
  that share at least two fields with the candidate and skips it at two or more; the seen
  keys form a set, so an identical key is counted once and the candidate passes. On a
  catalog of two rows with the key (clip, low, studio) and the query \<^verbatim>\<open>clip\<close>, both rows
  are returned: the two results carry the same key, against the comment of the loop that
  exact duplicates are avoided.
\<close>

theorem exact_duplicates_accepted:
  "map r_type (recommendations (get_recommendations
       (plain_model True [clip_row 100, clip_row 100] (Some half)) low_draws ''clip'' 1))
     = [''clip'', ''clip'']
   \<and> map r_budget (recommendations (get_recommendations
       (plain_model True [clip_row 100, clip_row 100] (Some half)) low_draws ''clip'' 1))
     = [''low'', ''low'']
   \<and> map r_lieu (recommendations (get_recommendations
       (plain_model True [clip_row 100, clip_row 100] (Some half)) low_draws ''clip'' 1))
     = [''studio'', ''studio'']"
  unfolding twin_rows_recommendations by simp

text \<open>
  C2. In the walk, the key of a candidate is added to the seen set as soon as the candidate
  passes the diversity test (fewer than two similar seen keys), before its score is read
  and tested: whenever a step returns, the seen set after it is the set before when the
  candidate fails the diversity test, and the set before with the candidate's key
  otherwise. In particular a candidate that passes the diversity test and is skipped for
  a score below the threshold leaves the results as they were and adds its key.
\<close>

theorem seen_key_recorded_before_quality_test:
  "(selector_step m similarities jours idx (results, seen_combinations) = Inr st
      \<longrightarrow> snd st
            = (if 2 \<le> similar_count (combo_key (snd (configs m ! idx))) seen_combinations
               then seen_combinations
               else insert (combo_key (snd (configs m ! idx))) seen_combinations))
   \<and> (idx < length (configs m)
        \<and> similar_count (combo_key (snd (configs m ! idx))) seen_combinations < 2
        \<and> score_at similarities idx = Inr sim \<and> sim < quality_threshold
      \<longrightarrow> selector_step m similarities jours idx (results, seen_combinations)
            = Inr (results, insert (combo_key (snd (configs m ! idx))) seen_combinations))"
  by (auto simp: selector_step_def Let_def split: if_splits sum.splits)

theorem seen_key_recorded_before_quality_test_witness:
  "0 < length (configs (plain_model True [clip_row 100] None))
   \<and> similar_count (combo_key (snd (configs (plain_model True [clip_row 100] None) ! 0))) {} < 2
   \<and> score_at (NdArray [1 / 10]) 0 = Inr (1 / 10)
   \<and> 1 / 10 < quality_threshold
   \<and> selector_step (plain_model True [clip_row 100] None) (NdArray [1 / 10]) 1 0 ([], {})
       = Inr ([], insert (combo_key (snd (configs (plain_model True [clip_row 100] None) ! 0))) {})"
proof -
  have l: "0 < length (configs (plain_model True [clip_row 100] None))"
    by (simp add: plain_model_def)
  have a: "similar_count (combo_key (snd (configs (plain_model True [clip_row 100] None) ! 0))) {}
             < 2"
    by (simp add: similar_count_def)
  have s: "score_at (NdArray [1 / 10]) 0 = Inr (1 / 10)"
    by (simp add: score_at_def)
  have b: "(1 / 10 :: real) < quality_threshold"
    by (simp add: quality_threshold_def)
  from seen_key_recorded_before_quality_test
         [of "plain_model True [clip_row 100] None" "NdArray [1 / 10]" 1 0 "[]" "{}" _ "1 / 10"]
       l a s b
  show ?thesis by blast
qed

text \<open>
  The claim as it was stated fails on a first candidate with score 0.1: it passes the
  diversity test, is skipped by the quality test, and the seen set goes from empty to its key.
\<close>

theorem low_score_key_is_recorded:
  "similar_count (combo_key (clip_row 100)) {} = 0
   \<and> score_at (NdArray [1 / 10]) 0 = Inr (1 / 10)
   \<and> 1 / 10 < quality_threshold
   \<and> selector_step (plain_model True [clip_row 100] None) (NdArray [1 / 10]) 1 0 ([], {})
       = Inr ([], {(''clip'', ''low'', ''studio'')})"
  by (simp add: selector_step_def similar_count_def quality_threshold_def combo_key_def
      clip_row_def priced_row_def plain_model_def score_at_def)

section \<open>Normalisation of the scores\<close>

lemma normalized_list_bounds:
  fixes rs :: "real list"
  assumes "rs \<noteq> []"
    and "fs = (if 0 < Max (set rs) then map (\<lambda>x. x / Max (set rs)) rs else rs)"
  shows "length fs = length rs
       \<and> (\<forall>i < length rs. fs ! i \<le> 1 \<and> (0 \<le> rs ! i \<longrightarrow> 0 \<le> fs ! i)
                           \<and> (rs ! i < 0 \<longrightarrow> fs ! i < 0))
       \<and> ((\<exists>i < length rs. 0 < rs ! i)
            \<longrightarrow> (\<exists>i < length rs. fs ! i = 1) \<and> (\<forall>i < length rs. fs ! i = rs ! i / Max (set rs)))
       \<and> ((\<forall>i < length rs. rs ! i \<le> 0) \<longrightarrow> fs = rs)"
proof -
  have le: "\<And>i. i < length rs \<Longrightarrow> rs ! i \<le> Max (set rs)" by simp
  have "Max (set rs) \<in> set rs" using assms(1) by (intro Max_in) auto
  then obtain k where k: "k < length rs" "rs ! k = Max (set rs)"
    by (auto simp: in_set_conv_nth)
  show ?thesis
  proof (cases "0 < Max (set rs)")
    case True
    then have fs: "fs = map (\<lambda>x. x / Max (set rs)) rs" using assms(2) by simp
    have one: "fs ! k = 1" using k True by (simp add: fs)
    have b: "\<forall>i < length rs. fs ! i \<le> 1 \<and> (0 \<le> rs ! i \<longrightarrow> 0 \<le> fs ! i)
                           \<and> (rs ! i < 0 \<longrightarrow> fs ! i < 0)"
      using True le by (simp add: fs divide_le_eq divide_less_0_iff)
    have q: "\<forall>i < length rs. fs ! i = rs ! i / Max (set rs)" by (simp add: fs)
    have n: "\<not> (\<forall>i < length rs. rs ! i \<le> 0)" using k True by force
    from one b q n k(1) show ?thesis by (auto simp: fs)
  next
    case False
    then have fs: "fs = rs" using assms(2) by simp
    have np: "\<forall>i < length rs. rs ! i \<le> 0"
    proof (intro allI impI)
      fix i assume "i < length rs"
      from le [OF this] False show "rs ! i \<le> 0" by linarith
    qed
    then have "\<not> (\<exists>i < length rs. 0 < rs ! i)" by (auto simp: not_less)
    with np show ?thesis by (fastforce simp: fs)
  qed
qed

lemma raw_scores_length:
  assumes "raw_scores m pq = Inr raw"
  shows "length (values_of raw) = length (configs m) \<and> configs m \<noteq> []"
  using assms
  by (auto simp: raw_scores_def Let_def index_def rows_def
      split: option.splits sum.splits if_splits)

lemma normalize_scores_values:
  assumes "values_of raw \<noteq> []"
  shows "\<exists>fs. normalize_scores raw = Inr fs
          \<and> values_of fs = (if 0 < Max (set (values_of raw))
                            then map (\<lambda>x. x / Max (set (values_of raw))) (values_of raw)
                            else values_of raw)
          \<and> (\<not> 0 < Max (set (values_of raw)) \<longrightarrow> fs = raw)"
  using assms by (simp add: normalize_scores_def Let_def values_of_map_scores)

text \<open>
  C3. For a non-empty processed query whose raw scores are computed without error, the
  final scores are the raw scores divided by their maximum when some raw score is
  positive, and the raw scores themselves otherwise. So every final score is at most 1, a
  candidate whose raw score is not negative has a final score in [0, 1], a candidate with
  a negative raw score (a negative cosine similarity) keeps a negative final score, some
  candidate has the final score exactly 1 as soon as one raw score is positive, and a
  batch without a positive raw score is returned as it is.
\<close>

theorem final_scores_bounds:
  assumes "enhanced_preprocess_text m user_query \<noteq> []"
    and "raw_scores m (enhanced_preprocess_text m user_query) = Inr raw"
  shows "length (values_of (calculate_enhanced_scores m rnd user_query))
           = length (values_of raw)
       \<and> (\<forall>i < length (values_of raw).
            values_of (calculate_enhanced_scores m rnd user_query) ! i \<le> 1
            \<and> (0 \<le> values_of raw ! i
                 \<longrightarrow> 0 \<le> values_of (calculate_enhanced_scores m rnd user_query) ! i)
            \<and> (values_of raw ! i < 0
                 \<longrightarrow> values_of (calculate_enhanced_scores m rnd user_query) ! i < 0))
       \<and> ((\<exists>i < length (values_of raw). 0 < values_of raw ! i)
            \<longrightarrow> (\<exists>i < length (values_of raw).
                    values_of (calculate_enhanced_scores m rnd user_query) ! i = 1)
                \<and> (\<forall>i < length (values_of raw).
                    values_of (calculate_enhanced_scores m rnd user_query) ! i
                      = values_of raw ! i / Max (set (values_of raw))))
       \<and> ((\<forall>i < length (values_of raw). values_of raw ! i \<le> 0)
            \<longrightarrow> calculate_enhanced_scores m rnd user_query = raw)"
proof -
  from raw_scores_length [OF assms(2)] have ne: "values_of raw \<noteq> []" by auto
  from normalize_scores_values [OF ne] obtain fs where
    n: "normalize_scores raw = Inr fs"
    and v: "values_of fs = (if 0 < Max (set (values_of raw))
                            then map (\<lambda>x. x / Max (set (values_of raw))) (values_of raw)
                            else values_of raw)"
    and u: "\<not> 0 < Max (set (values_of raw)) \<longrightarrow> fs = raw"
    by blast
  from assms n have c: "calculate_enhanced_scores m rnd user_query = fs"
    by (simp add: calculate_enhanced_scores_def try_enhanced_scores_def)
  have le: "\<And>i. i < length (values_of raw) \<Longrightarrow> values_of raw ! i \<le> Max (set (values_of raw))"
    by simp
  have "(\<forall>i < length (values_of raw). values_of raw ! i \<le> 0) \<longrightarrow> fs = raw"
  proof
    assume np: "\<forall>i < length (values_of raw). values_of raw ! i \<le> 0"
    have "Max (set (values_of raw)) \<in> set (values_of raw)" using ne by (intro Max_in) auto
    then obtain k where "k < length (values_of raw)"
      "values_of raw ! k = Max (set (values_of raw))"
      by (auto simp: in_set_conv_nth)
    with np have "\<not> 0 < Max (set (values_of raw))" by (metis not_less)
    with u show "fs = raw" by blast
  qed
  with normalized_list_bounds [OF ne v] show ?thesis unfolding c by blast
qed

theorem final_scores_bounds_witness:
  "enhanced_preprocess_text (plain_model True [clip_row 100, clip_row 100] (Some mixed_sim))
     ''abc'' \<noteq> []
   \<and> raw_scores (plain_model True [clip_row 100, clip_row 100] (Some mixed_sim))
       (enhanced_preprocess_text
          (plain_model True [clip_row 100, clip_row 100] (Some mixed_sim)) ''abc'')
       = Inr (NdArray [- (6 / 25), 6 / 25])
   \<and> 0 < values_of (NdArray [- (6 / 25), 6 / 25]) ! 1
   \<and> values_of (NdArray [- (6 / 25), 6 / 25]) ! 0 < 0
   \<and> values_of (calculate_enhanced_scores
                 (plain_model True [clip_row 100, clip_row 100] (Some mixed_sim))
                 low_draws ''abc'') ! 0 < 0
   \<and> values_of (calculate_enhanced_scores
                 (plain_model True [clip_row 100, clip_row 100] (Some mixed_sim))
                 low_draws ''abc'') ! 1 = 6 / 25 / Max (set (values_of (NdArray [- (6 / 25), 6 / 25])))"
proof -
  let ?m = "plain_model True [clip_row 100, clip_row 100] (Some mixed_sim)"
  let ?raw = "NdArray [- (6 / 25), 6 / 25]"
  have pq: "enhanced_preprocess_text ?m ''abc'' = ''abc''"
    by (simp add: plain_model_def)
  have h1: "enhanced_preprocess_text ?m ''abc'' \<noteq> []"
    by (simp add: pq)
  have h2: "raw_scores ?m (enhanced_preprocess_text ?m ''abc'') = Inr ?raw"
    by (simp only: pq no_overlap_mixed_raw)
  have p1: "0 < values_of ?raw ! 1" by simp
  have p0: "values_of ?raw ! 0 < 0" by simp
  have l0: "0 < length (values_of ?raw)" and l1: "1 < length (values_of ?raw)" by simp_all
  note t = final_scores_bounds [OF h1 h2, of low_draws]
  from t p0 l0 have n0: "values_of (calculate_enhanced_scores ?m low_draws ''abc'') ! 0 < 0"
    by blast
  from p1 l1 have ex: "\<exists>i < length (values_of ?raw). 0 < values_of ?raw ! i" by blast
  with t l1 have "values_of (calculate_enhanced_scores ?m low_draws ''abc'') ! 1
      = values_of ?raw ! 1 / Max (set (values_of ?raw))"
    by blast
  then have q1: "values_of (calculate_enhanced_scores ?m low_draws ''abc'') ! 1
      = 6 / 25 / Max (set (values_of ?raw))"
    by simp
  from h1 h2 p1 p0 n0 q1 show ?thesis by blast
qed

text \<open>
  The claim as it was stated fails twice on a query without a word of the catalog: with
  similarities \<open>-0.5\<close> and \<open>0.5\<close> the first final score is \<open>-1\<close>; with both
  similarities \<open>-0.5\<close> the raw scores are not zero and no final score is 1.
\<close>

theorem negative_final_score:
  "calculate_enhanced_scores (plain_model True [clip_row 100, clip_row 100] (Some mixed_sim))
     low_draws ''abc'' = NdArray [- 1, 1]
   \<and> raw_scores (plain_model True [clip_row 100, clip_row 100] (Some neg_sim)) ''abc''
       = Inr (NdArray [- (6 / 25), - (6 / 25)])
   \<and> calculate_enhanced_scores (plain_model True [clip_row 100, clip_row 100] (Some neg_sim))
       low_draws ''abc'' = NdArray [- (6 / 25), - (6 / 25)]"
  by (simp only: no_overlap_mixed_scores no_overlap_negative_raw no_overlap_negative_scores)

section \<open>Determinism\<close>

text \<open>
  C4. Whenever the score computation completes without error, the scores are those of its
  body and two runs on the same model state (catalog, embedder, normaliser), query and
  duration return the same response, whatever the random generator would have drawn. When
  the computation raises, the scores are the draws of the generator and two runs can differ.
\<close>

theorem deterministic_without_error:
  assumes "try_enhanced_scores m user_query = Inr scores"
  shows "calculate_enhanced_scores m rnd user_query = scores
       \<and> get_recommendations m rnd user_query jours
           = get_recommendations m rnd' user_query jours"
  using assms
  by (simp add: get_recommendations_def try_recommendations_def calculate_enhanced_scores_def)

theorem deterministic_without_error_witness:
  "try_enhanced_scores (plain_model True [clip_row 100] (Some half)) ''clip''
     = Inr (Series [(0, 1)])
   \<and> get_recommendations (plain_model True [clip_row 100] (Some half)) low_draws ''clip'' 7
       = get_recommendations (plain_model True [clip_row 100] (Some half)) high_draws ''clip'' 7"
  using deterministic_without_error [OF single_row_scores, of 100 low_draws 7 high_draws]
    single_row_scores [of 100]
  by simp

text \<open>
  With an embedder that raises, the same query on the same catalog gives no recommendation
  when the generator draws 0.12 and one recommendation of score 0.2 when it draws 0.2.
\<close>

theorem random_fallback_differs:
  "recommendations (get_recommendations (plain_model True [clip_row 100] None)
      low_draws ''clip'' 1) = []
   \<and> map score (recommendations (get_recommendations (plain_model True [clip_row 100] None)
      high_draws ''clip'' 1)) = [1 / 5]"
  by code_simp

section \<open>Order of the walk\<close>

lemma insertion_argsort_contract:
  "mset (insertion_argsort xs) = mset [0..<length xs]
   \<and> sorted (map ((!) xs) (insertion_argsort xs))"
  by (simp add: insertion_argsort_def)

text \<open>
  C5. The walk is the reverse of numpy's ascending argsort of the scores. Whenever that
  argsort returns the positions of the batch in ascending order of their scores, the walk
  visits every candidate once, in descending order of the final score. The order of two
  candidates with equal final score is the one the sorting routine leaves, reversed; the
  routine of the default kind is free in it, so the walk need not follow the catalog.
\<close>

theorem top_indices_order:
  assumes "mset (argsort m (values_of similarities))
             = mset [0..<length (values_of similarities)]"
    and "sorted (map ((!) (values_of similarities)) (argsort m (values_of similarities)))"
  shows "sorted_wrt (\<lambda>i j. values_of similarities ! j \<le> values_of similarities ! i)
           (top_indices m similarities)
       \<and> mset (top_indices m similarities) = mset [0..<length (values_of similarities)]"
proof -
  from assms(2) have "sorted_wrt (\<lambda>i j. values_of similarities ! i \<le> values_of similarities ! j)
      (argsort m (values_of similarities))"
    by (simp add: sorted_map)
  then show ?thesis using assms(1)
    by (simp add: top_indices_def sorted_wrt_rev)
qed

theorem top_indices_order_witness:
  "mset (argsort (plain_model True [] None) (values_of (NdArray [1 / 2, 1])))
     = mset [0..<length (values_of (NdArray [1 / 2, 1]))]
   \<and> sorted (map ((!) (values_of (NdArray [1 / 2, 1])))
               (argsort (plain_model True [] None) (values_of (NdArray [1 / 2, 1]))))
   \<and> top_indices (plain_model True [] None) (NdArray [1 / 2, 1]) = [1, 0]
   \<and> mset (top_indices (plain_model True [] None) (NdArray [1 / 2, 1]))
       = mset [0..<length (values_of (NdArray [1 / 2, 1]))]"
proof -
  have a: "argsort (plain_model True [] None) = insertion_argsort"
    by (simp add: plain_model_def)
  have h1: "mset (argsort (plain_model True [] None) (values_of (NdArray [1 / 2, 1])))
     = mset [0..<length (values_of (NdArray [1 / 2, 1]))]"
    unfolding a using insertion_argsort_contract by blast
  have h2: "sorted (map ((!) (values_of (NdArray [1 / 2, 1])))
               (argsort (plain_model True [] None) (values_of (NdArray [1 / 2, 1]))))"
    unfolding a using insertion_argsort_contract by blast
  have w: "top_indices (plain_model True [] None) (NdArray [1 / 2, 1]) = [1, 0]"
    by (simp add: top_indices_def a insertion_argsort_def)
  from top_indices_order [OF h1 h2] h1 h2 w show ?thesis by blast
qed

text \<open>
  Two candidates with the same score, under a sorting routine that returns the positions
  in ascending order and leaves equal values in index order: the second of the catalog is
  walked first.
\<close>

theorem equal_scores_reverse_catalog_order:
  "values_of (NdArray [1, 1]) ! 0 = values_of (NdArray [1, 1]) ! 1
   \<and> mset (insertion_argsort [1, 1]) = mset [0..<length [1, 1 :: real]]
   \<and> sorted (map ((!) [1, 1]) (insertion_argsort [1, 1]))
   \<and> top_indices (plain_model True [] None) (NdArray [1, 1]) = [1, 0]"
  by (simp add: top_indices_def plain_model_def insertion_argsort_def)

section \<open>Input errors and empty results\<close>

text \<open>
  C6. On an initialised model, every query whose stripped text has fewer than 3 characters
  is answered with the structured failure: success is false, the message says that the
  query is too short, the list of recommendations is empty. The body of
  \<^verbatim>\<open>get_recommendations\<close> returns this value (\<open>Inr\<close>, nothing is raised), and it is the
  same value whatever the catalog, the embedder and the random draws are: no score is
  computed. The guard on \<open>is_initialized\<close> stands before the length test, so the model is
  taken to be initialised, as it is whenever the service routes a request to it.
\<close>

theorem short_query_failure:
  assumes "is_initialized m" and "length (strip user_query) < 3"
  shows "try_recommendations m rnd user_query jours
           = Inr (failure ''Query too short. Please be more specific.'')
       \<and> get_recommendations m rnd user_query jours
           = failure ''Query too short. Please be more specific.''
       \<and> \<not> success (get_recommendations m rnd user_query jours)
       \<and> recommendations (get_recommendations m rnd user_query jours) = []"
  using assms by (simp add: get_recommendations_def try_recommendations_def failure_def)

theorem short_query_failure_witness:
  "is_initialized (plain_model True [clip_row 100] None) \<and> length (strip ''ab'') < 3
   \<and> get_recommendations (plain_model True [clip_row 100] None) low_draws ''ab'' 1
       = failure ''Query too short. Please be more specific.''"
proof -
  have i: "is_initialized (plain_model True [clip_row 100] None)"
    by (simp add: plain_model_def)
  have l: "length (strip ''ab'') < 3"
    by (simp add: strip_def isspace_def)
  show ?thesis using i l short_query_failure [OF i l, of low_draws 1] by simp
qed

lemma no_match_build_results:
  assumes "\<forall>s \<in> set (values_of similarities). s < quality_threshold"
  shows "(\<exists>e. build_results m similarities jours = Inl e)
       \<or> build_results m similarities jours = Inr []"
proof (cases "selector_walk m similarities jours (top_indices m similarities) ([], {})")
  case (Inl e)
  then show ?thesis by (simp add: build_results_def)
next
  case (Inr st')
  from selector_walk_no_accept [OF assms Inr] have "fst st' = []" by simp
  with Inr show ?thesis by (simp add: build_results_def)
qed

lemma no_match_no_raise:
  assumes "\<forall>s \<in> set (values_of (calculate_enhanced_scores m rnd q)). s < quality_threshold"
    and "index m = [0..<length (configs m)]"
    and "\<forall>idx \<in> set (top_indices m (calculate_enhanced_scores m rnd q)). idx < length (configs m)"
  shows "build_results m (calculate_enhanced_scores m rnd q) jours = Inr []"
proof -
  have "\<forall>idx < length (configs m). \<exists>s. score_at (calculate_enhanced_scores m rnd q) idx = Inr s"
    using score_at_default_labels [OF assms(2)] by blast
  from selector_walk_no_raise [OF assms(1) assms(3) this] obtain st' where
    "selector_walk m (calculate_enhanced_scores m rnd q) jours
       (top_indices m (calculate_enhanced_scores m rnd q)) ([], {}) = Inr st'"
    by blast
  then have "\<not> (\<exists>e. build_results m (calculate_enhanced_scores m rnd q) jours = Inl e)"
    by (simp add: build_results_def)
  with no_match_build_results [OF assms(1), of m jours] show ?thesis by blast
qed

lemma empty_results_response:
  assumes "is_initialized m" and "3 \<le> length (strip user_query)"
    and "build_results m (calculate_enhanced_scores m rnd user_query) jours = Inr []"
  shows "try_recommendations m rnd user_query jours
           = Inr (get_recommendations m rnd user_query jours)
       \<and> \<not> success (get_recommendations m rnd user_query jours)
       \<and> recommendations (get_recommendations m rnd user_query jours) = []
       \<and> message (get_recommendations m rnd user_query jours) = ''No close matches found''"
proof -
  from assms(2) have "\<not> length (strip user_query) < 3" by simp
  then show ?thesis
    by (simp add: get_recommendations_def try_recommendations_def Let_def assms(1,3))
qed

lemma raised_response:
  assumes "is_initialized m" and "3 \<le> length (strip user_query)"
    and "build_results m (calculate_enhanced_scores m rnd user_query) jours = Inl e"
  shows "try_recommendations m rnd user_query jours = Inl e
       \<and> \<not> success (get_recommendations m rnd user_query jours)
       \<and> recommendations (get_recommendations m rnd user_query jours) = []
       \<and> message (get_recommendations m rnd user_query jours) = str_exception m e"
proof -
  from assms(2) have "\<not> length (strip user_query) < 3" by simp
  then show ?thesis
    by (simp add: get_recommendations_def try_recommendations_def Let_def failure_def
        assms(1,3))
qed

text \<open>
  C7. On an initialised model, for every query of at least 3 characters after stripping for
  which no candidate reaches the quality threshold, the response has the success flag
  false, since the flag is \<^verbatim>\<open>len(results) > 0\<close>, and an empty list of recommendations.
  When the index of the data frame is \<open>0, 1, 2, \<dots>\<close> (no row was dropped at loading) and the
  walk holds positions of the catalog, nothing is raised and the message is
  \<^verbatim>\<open>No close matches found\<close>. Otherwise the reading of a score can raise, and the
  response is the failure whose message is the text of the exception.
\<close>

theorem no_match_response:
  assumes "is_initialized m" and "3 \<le> length (strip user_query)"
    and "\<forall>s \<in> set (values_of (calculate_enhanced_scores m rnd user_query)).
           s < quality_threshold"
  shows "\<not> success (get_recommendations m rnd user_query jours)
       \<and> recommendations (get_recommendations m rnd user_query jours) = []
       \<and> ((try_recommendations m rnd user_query jours
             = Inr (get_recommendations m rnd user_query jours)
           \<and> message (get_recommendations m rnd user_query jours) = ''No close matches found'')
          \<or> (\<exists>e. try_recommendations m rnd user_query jours = Inl e
                \<and> message (get_recommendations m rnd user_query jours) = str_exception m e))
       \<and> (index m = [0..<length (configs m)]
           \<and> (\<forall>idx \<in> set (top_indices m (calculate_enhanced_scores m rnd user_query)).
                 idx < length (configs m))
          \<longrightarrow> try_recommendations m rnd user_query jours
                = Inr (get_recommendations m rnd user_query jours)
              \<and> message (get_recommendations m rnd user_query jours)
                  = ''No close matches found'')"
proof -
  from no_match_build_results [OF assms(3), of m jours]
  have a: "\<not> success (get_recommendations m rnd user_query jours)
       \<and> recommendations (get_recommendations m rnd user_query jours) = []
       \<and> ((try_recommendations m rnd user_query jours
             = Inr (get_recommendations m rnd user_query jours)
           \<and> message (get_recommendations m rnd user_query jours) = ''No close matches found'')
          \<or> (\<exists>e. try_recommendations m rnd user_query jours = Inl e
                \<and> message (get_recommendations m rnd user_query jours) = str_exception m e))"
  proof
    assume "\<exists>e. build_results m (calculate_enhanced_scores m rnd user_query) jours = Inl e"
    then obtain e where
      "build_results m (calculate_enhanced_scores m rnd user_query) jours = Inl e" ..
    from raised_response [OF assms(1,2) this] show ?thesis by blast
  next
    assume "build_results m (calculate_enhanced_scores m rnd user_query) jours = Inr []"
    from empty_results_response [OF assms(1,2) this] show ?thesis by blast
  qed
  have b: "index m = [0..<length (configs m)]
           \<and> (\<forall>idx \<in> set (top_indices m (calculate_enhanced_scores m rnd user_query)).
                 idx < length (configs m))
          \<longrightarrow> try_recommendations m rnd user_query jours
                = Inr (get_recommendations m rnd user_query jours)
              \<and> message (get_recommendations m rnd user_query jours)
                  = ''No close matches found''"
  proof
    assume h: "index m = [0..<length (configs m)]
           \<and> (\<forall>idx \<in> set (top_indices m (calculate_enhanced_scores m rnd user_query)).
                 idx < length (configs m))"
    from h have h1: "index m = [0..<length (configs m)]" ..
    from h have h2: "\<forall>idx \<in> set (top_indices m (calculate_enhanced_scores m rnd user_query)).
                 idx < length (configs m)" ..
    from empty_results_response [OF assms(1,2) no_match_no_raise [OF assms(3) h1 h2]]
    show "try_recommendations m rnd user_query jours
                = Inr (get_recommendations m rnd user_query jours)
              \<and> message (get_recommendations m rnd user_query jours)
                  = ''No close matches found''"
      by blast
  qed
  from a b show ?thesis by blast
qed

theorem no_match_response_witness:
  "is_initialized (plain_model True [clip_row 100] (Some zero_sim))
   \<and> 3 \<le> length (strip ''abc'')
   \<and> calculate_enhanced_scores (plain_model True [clip_row 100] (Some zero_sim))
         low_draws ''abc'' = NdArray [0]
   \<and> 0 < quality_threshold
   \<and> index (plain_model True [clip_row 100] (Some zero_sim)) = [0]
   \<and> top_indices (plain_model True [clip_row 100] (Some zero_sim)) (NdArray [0]) = [0]
   \<and> \<not> success (get_recommendations (plain_model True [clip_row 100] (Some zero_sim))
                  low_draws ''abc'' 1)
   \<and> message (get_recommendations (plain_model True [clip_row 100] (Some zero_sim))
                low_draws ''abc'' 1) = ''No close matches found''"
proof -
  let ?m = "plain_model True [clip_row 100] (Some zero_sim)"
  have i: "is_initialized ?m"
    by (simp add: plain_model_def)
  have l: "3 \<le> length (strip ''abc'')"
    by (simp add: strip_def isspace_def)
  have z: "calculate_enhanced_scores ?m low_draws ''abc'' = NdArray [0]"
    by (rule no_overlap_zero_scores)
  have q: "0 < quality_threshold"
    by (simp add: quality_threshold_def)
  have s: "\<forall>s \<in> set (values_of (calculate_enhanced_scores ?m low_draws ''abc'')).
             s < quality_threshold"
    by (simp add: z q)
  have n: "length (configs ?m) = 1"
    by (simp add: plain_model_def)
  have x: "index ?m = [0]"
    by (simp add: plain_model_def index_def)
  have t: "top_indices ?m (NdArray [0]) = [0]"
    by (simp add: top_indices_def plain_model_def insertion_argsort_def)
  have d: "index ?m = [0..<length (configs ?m)]
           \<and> (\<forall>idx \<in> set (top_indices ?m (calculate_enhanced_scores ?m low_draws ''abc'')).
                 idx < length (configs ?m))"
    by (simp add: x n z t)
  from no_match_response [OF i l s, of 1] d
  have "\<not> success (get_recommendations ?m low_draws ''abc'' 1)
        \<and> message (get_recommendations ?m low_draws ''abc'' 1) = ''No close matches found''"
    by blast
  with i l z q x t show ?thesis by blast
qed

text \<open>
  The claim as it was stated fails on the degenerate batch: the query \<^verbatim>\<open>abc\<close> has three
  characters, the only score is 0, and the response has success false.
\<close>

theorem no_match_reported_as_failure:
  "3 \<le> length (strip ''abc'')
   \<and> calculate_enhanced_scores (plain_model True [clip_row 100] (Some zero_sim)) low_draws ''abc''
       = NdArray [0]
   \<and> \<not> success (get_recommendations (plain_model True [clip_row 100] (Some zero_sim))
                  low_draws ''abc'' 1)
   \<and> message (get_recommendations (plain_model True [clip_row 100] (Some zero_sim))
                  low_draws ''abc'' 1) = ''No close matches found''"
  by code_simp

section \<open>Fields of a recommendation\<close>

text \<open>
  C8. For every recommendation, every duration of 1, 7 or 30 days and a catalog whose
  prices per day are whole numbers whose product with the duration stays inside the range
  of their type (64 bits for an integer column, the 53 bits of exact integers for a float
  column), the total price is the price per day times the duration, exactly. The price per
  day reported is \<^verbatim>\<open>int(price)\<close> and the total is \<^verbatim>\<open>int(price * days)\<close>, each
  truncated on its own, and the product of an integer price is a 64-bit product.
\<close>

theorem prix_total_whole_price:
  assumes "r \<in> set (recommendations (get_recommendations m rnd user_query jours))"
    and "jours \<in> {1, 7, 30}"
    and "\<forall>row \<in> set (rows m). whole_in_range (prix_jour row) jours"
  shows "prix_total r = r_prix_jour r * jours"
proof -
  from recommendations_accepted [OF assms(1)] obtain idx s where
    idx: "idx < length (configs m)"
    and r: "enhanced_result m (snd (configs m ! idx)) s jours = Inr r"
    by blast
  let ?row = "snd (configs m ! idx)"
  from idx have "?row \<in> set (rows m)" by (simp add: rows_def)
  with assms(3) have "whole_in_range (prix_jour ?row) jours" by blast
  from price_times_whole [OF assms(2) this] obtain t where
    t: "price_times (prix_jour ?row) jours = Inr t"
    and p: "price_int t = price_int (prix_jour ?row) * jours"
    by blast
  from r t have "prix_total r = price_int t" "r_prix_jour r = price_int (prix_jour ?row)"
    by (auto simp: enhanced_result_def)
  with p show ?thesis by simp
qed

theorem prix_total_whole_price_witness:
  "hd (recommendations (get_recommendations
         (plain_model True [priced_row (Int64 100)] (Some half)) low_draws ''clip'' 7))
     \<in> set (recommendations (get_recommendations
         (plain_model True [priced_row (Int64 100)] (Some half)) low_draws ''clip'' 7))
   \<and> (7 :: int) \<in> {1, 7, 30}
   \<and> rows (plain_model True [priced_row (Int64 100)] (Some half)) = [priced_row (Int64 100)]
   \<and> whole_in_range (prix_jour (priced_row (Int64 100))) 7
   \<and> r_prix_jour (hd (recommendations (get_recommendations
         (plain_model True [priced_row (Int64 100)] (Some half)) low_draws ''clip'' 7))) = 100
   \<and> prix_total (hd (recommendations (get_recommendations
         (plain_model True [priced_row (Int64 100)] (Some half)) low_draws ''clip'' 7))) = 700"
proof -
  let ?m = "plain_model True [priced_row (Int64 100)] (Some half)"
  let ?r = "hd (recommendations (get_recommendations ?m low_draws ''clip'' 7))"
  have mem: "?r \<in> set (recommendations (get_recommendations ?m low_draws ''clip'' 7))"
    by (simp add: single_row_recommendations)
  have j: "(7 :: int) \<in> {1, 7, 30}" by simp
  have rw: "rows ?m = [priced_row (Int64 100)]"
    by (simp add: plain_model_def rows_def)
  have w: "whole_in_range (prix_jour (priced_row (Int64 100))) 7"
    by (simp add: whole_in_range_def priced_row_def)
  have whole: "\<forall>row \<in> set (rows ?m). whole_in_range (prix_jour row) 7"
    by (simp add: rw w)
  have day: "r_prix_jour ?r = 100"
    by (simp add: single_row_recommendations)
  from prix_total_whole_price [OF mem j whole] day have "prix_total ?r = 700" by simp
  with mem j rw w day show ?thesis by blast
qed

text \<open>
  The claim as it was stated fails on a price of 100.5 per day and 7 days: the price per
  day reported is 100 and the total is 703, not 700. It fails on an integer price of
  400000000000000000 and 30 days: the 64-bit product wraps to a negative total.
\<close>

theorem prix_total_fractional_price:
  "map r_prix_jour (recommendations (get_recommendations
       (plain_model True [clip_row (201 / 2)] (Some half)) low_draws ''clip'' 7)) = [100]
   \<and> map prix_total (recommendations (get_recommendations
       (plain_model True [clip_row (201 / 2)] (Some half)) low_draws ''clip'' 7)) = [703]
   \<and> map r_prix_jour (recommendations (get_recommendations
       (plain_model True [priced_row (Int64 400000000000000000)] (Some half))
       low_draws ''clip'' 30)) = [400000000000000000]
   \<and> map prix_total (recommendations (get_recommendations
       (plain_model True [priced_row (Int64 400000000000000000)] (Some half))
       low_draws ''clip'' 30)) = [- 6446744073709551616]"
  unfolding fractional_row_recommendations overflow_row_recommendations by simp



section \<open>Specificity and boost\<close>

lemma split_acc_nonempty: "[] \<notin> set (split_acc w s)"
  by (induction s arbitrary: w) auto

lemma str_split_nonempty: "w \<in> set (str_split s) \<Longrightarrow> w \<noteq> []"
  using split_acc_nonempty [of "[]" s] by (auto simp: str_split_def)

lemma find_Some_holds: "find P xs = Some x \<Longrightarrow> P x"
  by (induction xs) (auto split: if_splits)

lemma specificity_decomposition:
  "\<exists>t. specificity_score (extract_enhanced_features m q)
          = of_bool (f_budget (extract_enhanced_features m q) \<noteq> None)
            + of_bool (f_lieu (extract_enhanced_features m q) \<noteq> None) + t
        \<and> t \<le> 2 \<and> (t = 0) = (f_type (extract_enhanced_features m q) = None)"
  by (auto simp: extract_enhanced_features_def Let_def truthy_def
      split: option.splits prod.splits dest!: find_Some_holds str_split_nonempty)

lemma specificity_le_4: "specificity_score (extract_enhanced_features m q) \<le> 4"
proof -
  from specificity_decomposition [of m q] obtain t where
    "specificity_score (extract_enhanced_features m q)
          = of_bool (f_budget (extract_enhanced_features m q) \<noteq> None)
            + of_bool (f_lieu (extract_enhanced_features m q) \<noteq> None) + t" "t \<le> 2"
    by blast
  then show ?thesis by (simp split: if_splits)
qed

lemma boost_bounds:
  assumes "3 / 10 \<le> boost_strength f" "boost_strength f \<le> 7 / 10"
  shows "1 \<le> boost f row \<and> boost f row \<le> 31 / 10"
  using assms by (simp add: boost_def match_def)

text \<open>
  C10. For every query the extracted specificity score is a natural number of at most 4:
  one point when a budget is found, one when a place is found, and for the type a number
  \<open>t\<close> of at most 2 points (2 for an exact match, 1 for an inferred type, 0 exactly when no
  type is set). The boost strength \<open>0.3 + 0.1 * specificity_score\<close> therefore lies in
  [0.3, 0.7] and the boost multiplier of every catalog row lies in [1, 3.1].
\<close>

theorem specificity_and_boost_bounds:
  "specificity_score (extract_enhanced_features m q) \<le> 4
   \<and> (\<exists>t. specificity_score (extract_enhanced_features m q)
          = of_bool (f_budget (extract_enhanced_features m q) \<noteq> None)
            + of_bool (f_lieu (extract_enhanced_features m q) \<noteq> None) + t
        \<and> t \<le> 2 \<and> (t = 0) = (f_type (extract_enhanced_features m q) = None))
   \<and> 3 / 10 \<le> boost_strength (extract_enhanced_features m q)
   \<and> boost_strength (extract_enhanced_features m q) \<le> 7 / 10
   \<and> 1 \<le> boost (extract_enhanced_features m q) row
   \<and> boost (extract_enhanced_features m q) row \<le> 31 / 10"
proof -
  let ?f = "extract_enhanced_features m q"
  have s: "specificity_score ?f \<le> 4" by (rule specificity_le_4)
  then have "real (specificity_score ?f) \<le> 4" by simp
  then have b: "3 / 10 \<le> boost_strength ?f" "boost_strength ?f \<le> 7 / 10"
    by (simp_all add: boost_strength_def)
  from s b boost_bounds [OF b, of row] specificity_decomposition [of m q]
  show ?thesis by blast
qed

end
